theory Spec2Isabelle
  imports Complex_Main
begin

section \<open>Python numbers and strings\<close>

text \<open>
  The validator (\<^verbatim>\<open>backend/validator/video_quality_validator.py\<close>) works with Python
  \<^verbatim>\<open>int\<close> (unbounded, modelled by \<^typ>\<open>int\<close>) and Python \<^verbatim>\<open>float\<close> (IEEE 754
  binary64). A finite float is a rational number, so floats are carried as \<^typ>\<open>rat\<close>,
  and every float operation of the source rounds the exact result to the nearest number
  with a 53 bit significand, ties to even. The exponent range is not bounded in the
  model (no overflow to infinity, no subnormal numbers), signed zeros are identified and
  NaN does not occur: the percentages of the validator lie between 0 and 100 for
  statistics produced by the analyzer.
\<close>

function bit_length :: "int \<Rightarrow> int" where
  "bit_length n = (if n \<le> 0 then 0 else 1 + bit_length (n div 2))"
  by pat_completeness auto
termination
  by (relation "measure nat") auto

declare bit_length.simps [simp del]

definition pow2 :: "int \<Rightarrow> rat" where
  "pow2 e = (if 0 \<le> e then 2 ^ nat e else 1 / 2 ^ nat (- e))"

definition round_half_even :: "rat \<Rightarrow> int" where
  "round_half_even x =
     (let m = \<lfloor>x\<rfloor>; r = x - of_int m
      in if r < 1 / 2 then m
         else if 1 / 2 < r then m + 1
         else if even m then m else m + 1)"

text \<open>
  \<open>double_exponent x\<close> is the exponent \<open>e\<close> of the unit in the last place of \<open>x\<close>:
  \<open>2 ^ 52 \<le> \<bar>x\<bar> / 2 ^ e < 2 ^ 53\<close>.
\<close>

definition double_exponent :: "rat \<Rightarrow> int" where
  "double_exponent x =
     (let (p, q) = quotient_of \<bar>x\<bar>;
          k = bit_length p - bit_length q
      in if pow2 k \<le> \<bar>x\<bar> then k - 52 else k - 53)"

definition round_double :: "rat \<Rightarrow> rat" where
  "round_double x =
     (if x = 0 then 0
      else let e = double_exponent x
           in sgn x * of_int (round_half_even (\<bar>x\<bar> / pow2 e)) * pow2 e)"

text \<open>
  \<^verbatim>\<open>a / b\<close> on two ints (true division, correctly rounded by CPython),
  \<^verbatim>\<open>x + y\<close> and \<^verbatim>\<open>x * y\<close> on two floats.
\<close>

definition truediv :: "int \<Rightarrow> int \<Rightarrow> rat" where
  "truediv a b = round_double (of_int a / of_int b)"

definition float_add :: "rat \<Rightarrow> rat \<Rightarrow> rat" where
  "float_add x y = round_double (x + y)"


text \<open>
  Strings are byte strings in UTF-8. \<open>str_int\<close> is \<^verbatim>\<open>str(n)\<close> on an int and
  \<open>format_1f\<close> is the format \<^verbatim>\<open>{x:.1f}\<close> on a float: the exact value rounded to one
  decimal, ties to even.
\<close>

definition nl :: string where
  "nl = [CHR 0x0A]"

definition check_mark :: string where
  "check_mark = [CHR 0xE2, CHR 0x9C, CHR 0x93]"

definition ballot_x :: string where
  "ballot_x = [CHR 0xE2, CHR 0x9C, CHR 0x97]"

definition bullet :: string where
  "bullet = [CHR 0xE2, CHR 0x80, CHR 0xA2]"

definition digit :: "int \<Rightarrow> char" where
  "digit d = ''0123456789'' ! nat d"

function str_digits :: "int \<Rightarrow> string" where
  "str_digits n = (if n < 10 then [digit n] else str_digits (n div 10) @ [digit (n mod 10)])"
  by pat_completeness auto
termination
  by (relation "measure nat") auto

declare str_digits.simps [simp del]

definition str_int :: "int \<Rightarrow> string" where
  "str_int n = (if n < 0 then ''-'' @ str_digits (- n) else str_digits n)"

definition format_1f :: "rat \<Rightarrow> string" where
  "format_1f x =
     (let d = round_half_even (\<bar>x\<bar> * 10)
      in (if x < 0 then ''-'' else '''') @ str_digits (d div 10) @ ''.'' @ [digit (d mod 10)])"

section \<open>The validator's constants and data\<close>

text \<open>
  Class constants of \<^verbatim>\<open>VideoQualityValidator\<close>. The per-frame thresholds are ints in
  the source and are compared with floats; the comparison is exact.
\<close>

definition MIN_CLARITY :: rat where
  "MIN_CLARITY = 20"

definition MIN_EXPOSURE :: rat where
  "MIN_EXPOSURE = 60"

definition MAX_EXPOSURE :: rat where
  "MAX_EXPOSURE = 200"

definition MIN_CONTRAST :: rat where
  "MIN_CONTRAST = 25"

definition MAX_BLURRY_PCT :: rat where
  "MAX_BLURRY_PCT = 10"

definition MAX_EXPOSURE_PCT :: rat where
  "MAX_EXPOSURE_PCT = 10"

definition MAX_LOW_CONTRAST_PCT :: rat where
  "MAX_LOW_CONTRAST_PCT = 10"

text \<open>
  The dict \<^verbatim>\<open>validation_result\<close> built by \<^verbatim>\<open>validate_quality\<close>. Its \<^verbatim>\<open>details\<close> and
  \<^verbatim>\<open>stats\<close> entries are dicts with fixed keys in insertion order: association lists.
  An empty dict \<^verbatim>\<open>{}\<close> returned in place of the result is \<open>None\<close>.
\<close>

record validation_result =
  res_passed :: bool
  res_issues :: "string list"
  res_details :: "(string \<times> string list) list"
  res_stats :: "(string \<times> rat) list"

section \<open>validate\_quality\<close>

text \<open>
  \<^verbatim>\<open>stats.get(key, 0)\<close> on the statistics dict, of which \<^verbatim>\<open>validate_quality\<close>
  reads the five integer entries.
\<close>

definition dict_get :: "(string \<rightharpoonup> int) \<Rightarrow> string \<Rightarrow> int \<Rightarrow> int" where
  "dict_get d k dflt = (case d k of None \<Rightarrow> dflt | Some v \<Rightarrow> v)"

definition clarity_issue :: "rat \<Rightarrow> string" where
  "clarity_issue blurry_pct =
     ''Clarity: '' @ format_1f blurry_pct @ ''% of frames are blurry (threshold: ''
       @ format_1f MAX_BLURRY_PCT @ ''%)''"

definition exposure_issue :: "rat \<Rightarrow> string" where
  "exposure_issue exposure_pct =
     ''Exposure: '' @ format_1f exposure_pct @ ''% of frames have exposure issues (threshold: ''
       @ format_1f MAX_EXPOSURE_PCT @ ''%)''"

definition contrast_issue :: "rat \<Rightarrow> string" where
  "contrast_issue low_contrast_pct =
     ''Contrast: '' @ format_1f low_contrast_pct @ ''% of frames have low contrast (threshold: ''
       @ format_1f MAX_LOW_CONTRAST_PCT @ ''%)''"

definition validation_message :: "string list \<Rightarrow> string" where
  "validation_message issues =
     (if length issues = 0
      then check_mark @ '' Validation passed!'' @ nl @ nl
             @ ''All visual quality checks meet the standards.''
      else ballot_x @ '' Validation failed'' @ nl @ nl @ ''The following issues were found:'' @ nl @ nl
             @ concat (map (\<lambda>issue. ''  '' @ bullet @ '' '' @ issue @ nl) issues)
             @ nl @ ''A total of '' @ str_int (int (length issues)) @ '' issues were found.'')"

definition validate_quality :: "(string \<rightharpoonup> int) \<Rightarrow> bool \<times> string \<times> validation_result option" where
  "validate_quality stats =
     (let num_images = dict_get stats ''num_images'' 0 in
      if num_images = 0 then (False, ''No image data available for validation.'', None)
      else
        let blurry_pct = truediv (100 * dict_get stats ''blurry'' 0) num_images;
            under_exposed_pct = truediv (100 * dict_get stats ''under_exposed'' 0) num_images;
            over_exposed_pct = truediv (100 * dict_get stats ''over_exposed'' 0) num_images;
            low_contrast_pct = truediv (100 * dict_get stats ''low_contrast'' 0) num_images;
            exposure_pct = float_add under_exposed_pct over_exposed_pct;
            clarity_found =
              (if MAX_BLURRY_PCT < blurry_pct then [clarity_issue blurry_pct] else []);
            exposure_found =
              (if MAX_EXPOSURE_PCT < exposure_pct then [exposure_issue exposure_pct] else []);
            exposure_sub =
              (if MAX_EXPOSURE_PCT < exposure_pct
               then (if 0 < under_exposed_pct
                     then [''  - Under-exposed: '' @ format_1f under_exposed_pct @ ''%''] else [])
                  @ (if 0 < over_exposed_pct
                     then [''  - Over-exposed: '' @ format_1f over_exposed_pct @ ''%''] else [])
               else []);
            contrast_found =
              (if MAX_LOW_CONTRAST_PCT < low_contrast_pct
               then [contrast_issue low_contrast_pct] else []);
            issues = clarity_found @ exposure_found @ contrast_found;
            result = \<lparr>
              res_passed = (length issues = 0),
              res_issues = issues,
              res_details =
                [(''clarity'', clarity_found),
                 (''exposure'', exposure_found @ exposure_sub),
                 (''contrast'', contrast_found)],
              res_stats =
                [(''blurry_pct'', blurry_pct),
                 (''exposure_pct'', exposure_pct),
                 (''under_exposed_pct'', under_exposed_pct),
                 (''over_exposed_pct'', over_exposed_pct),
                 (''low_contrast_pct'', low_contrast_pct)] \<rparr>
        in (True, validation_message issues, Some result))"

section \<open>The video stream\<close>

text \<open>
  \<^verbatim>\<open>cv2.VideoCapture\<close> is the external decoder. A capture is modelled by what it
  reports and by what happens at each frame position: \<^verbatim>\<open>cap.grab()\<close> succeeds while
  the cursor is inside \<open>cap_frames\<close>, and the entry at the cursor says what
  \<^verbatim>\<open>cap.retrieve()\<close> and the conversion to grayscale do with that frame:
  \<^item> \<open>RetrieveFails\<close>: \<^verbatim>\<open>retrieve\<close> returns \<^verbatim>\<open>ret = False\<close>;
  \<^item> \<open>ConvertFails\<close>: \<^verbatim>\<open>cv2.cvtColor\<close> raises, the first statement of the
    \<^verbatim>\<open>try\<close> block;
  \<^item> \<open>Decoded c e k\<close>: the frame converts, with Laplacian variance \<open>c\<close>, mean
    intensity \<open>e\<close> and standard deviation \<open>k\<close> (finite floats; the three numpy
    reductions on a grayscale array do not raise).
  \<open>cap_frame_count\<close> is \<^verbatim>\<open>CAP_PROP_FRAME_COUNT\<close> as the container reports it; it
  need not be the number of frames that can be grabbed.
\<close>

datatype frame = RetrieveFails | ConvertFails | Decoded rat rat rat

record video_capture =
  cap_isOpened :: bool
  cap_frame_count :: int
  cap_fps :: rat
  cap_frames :: "frame list"

text \<open>The dict \<^verbatim>\<open>stats\<close> of \<^verbatim>\<open>analyze_video_quality\<close>, with its twelve keys.\<close>

record analysis_stats =
  clarity :: "rat list"
  exposure :: "rat list"
  contrast :: "rat list"
  num_images :: int
  blurry :: int
  under_exposed :: int
  over_exposed :: int
  low_contrast :: int
  total_frames :: int
  fps :: rat
  sample_rate :: int
  frames_analyzed :: int

text \<open>
  A progress callback is called with \<^verbatim>\<open>(analyzed_count, total_to_analyze)\<close>; its
  result here says whether the call raises an \<^verbatim>\<open>Exception\<close>.
\<close>

type_synonym progress_callback = "int \<Rightarrow> int \<Rightarrow> bool"

text \<open>
  The local variables of the frame loop. Three fields are not variables of the source
  but record what the loop does: \<open>visited\<close> lists the frame indices that the loop has
  gone through (its iteration reached \<^verbatim>\<open>frame_idx += 1\<close>), \<open>progress_calls\<close> the
  arguments of the calls of the progress callback, and \<open>printed\<close> the frame indices
  reported by the \<^verbatim>\<open>print\<close> of the \<^verbatim>\<open>except\<close> branch.
\<close>

record walk_state =
  w_stats :: analysis_stats
  frame_idx :: int
  analyzed_count :: int
  visited :: "int list"
  progress_calls :: "(int \<times> int) list"
  printed :: "int list"

section \<open>analyze\_video\_quality\<close>

text \<open>The three classification checks on the metrics of one frame (source lines 146--162).\<close>

definition classify :: "rat \<Rightarrow> rat \<Rightarrow> rat \<Rightarrow> analysis_stats \<Rightarrow> analysis_stats" where
  "classify clarity_score mean_intensity contrast_value s0 =
     (let s1 = s0\<lparr>clarity := clarity s0 @ [clarity_score]\<rparr>;
          s2 = (if clarity_score < MIN_CLARITY then s1\<lparr>blurry := blurry s1 + 1\<rparr> else s1);
          s3 = s2\<lparr>exposure := exposure s2 @ [mean_intensity]\<rparr>;
          s4 = (if mean_intensity < MIN_EXPOSURE
                then s3\<lparr>under_exposed := under_exposed s3 + 1\<rparr>
                else if MAX_EXPOSURE < mean_intensity
                then s3\<lparr>over_exposed := over_exposed s3 + 1\<rparr>
                else s3);
          s5 = s4\<lparr>contrast := contrast s4 @ [contrast_value]\<rparr>
      in if contrast_value < MIN_CONTRAST then s5\<lparr>low_contrast := low_contrast s5 + 1\<rparr> else s5)"

text \<open>
  The \<^verbatim>\<open>try\<close> block for a frame that converts: classification, the two counters, then
  the progress callback. An exception of the callback is caught by the same
  \<^verbatim>\<open>except Exception\<close> and printed; the statistics are already updated.
\<close>

definition analyze_frame ::
  "int \<Rightarrow> progress_callback option \<Rightarrow> rat \<Rightarrow> rat \<Rightarrow> rat \<Rightarrow> walk_state \<Rightarrow> walk_state" where
  "analyze_frame total_to_analyze callback clarity_score mean_intensity contrast_value st =
     (let n = analyzed_count st + 1;
          st1 = st\<lparr>w_stats := (classify clarity_score mean_intensity contrast_value (w_stats st))
                                  \<lparr>num_images := n\<rparr>,
                    analyzed_count := n\<rparr>
      in case callback of
           None \<Rightarrow> st1
         | Some f \<Rightarrow>
             (let st2 = st1\<lparr>progress_calls := progress_calls st1 @ [(n, total_to_analyze)]\<rparr>
              in if f n total_to_analyze
                 then st2\<lparr>printed := printed st2 @ [frame_idx st2]\<rparr> else st2))"

text \<open>\<^verbatim>\<open>frame_idx += 1\<close> at the end of an iteration; the index just left is now visited.\<close>

definition next_frame :: "walk_state \<Rightarrow> walk_state" where
  "next_frame st = st\<lparr>visited := visited st @ [frame_idx st], frame_idx := frame_idx st + 1\<rparr>"

definition grab :: "frame list \<Rightarrow> int \<Rightarrow> bool" where
  "grab frames i = (0 \<le> i \<and> i < int (length frames))"

text \<open>
  One iteration of \<^verbatim>\<open>while True\<close> after the test of \<^verbatim>\<open>actual_end_frame\<close>; the
  first component is False when the iteration ends in \<^verbatim>\<open>break\<close>. The cursor of the
  capture equals \<open>frame_idx\<close>: both start at 0 or, after \<^verbatim>\<open>cap.set\<close>, at
  \<^verbatim>\<open>start_frame_int\<close>, and each successful \<^verbatim>\<open>grab\<close> is followed by
  \<^verbatim>\<open>frame_idx += 1\<close>.
\<close>

definition loop_body ::
  "frame list \<Rightarrow> int \<Rightarrow> int \<Rightarrow> int \<Rightarrow> progress_callback option \<Rightarrow> walk_state
     \<Rightarrow> bool \<times> walk_state" where
  "loop_body frames start_frame_int rate total_to_analyze callback st =
     (if \<not> grab frames (frame_idx st) then (False, st)
      else if (frame_idx st - start_frame_int) mod rate = 0 then
        (case frames ! nat (frame_idx st) of
           RetrieveFails \<Rightarrow> (False, st)
         | ConvertFails \<Rightarrow>
             (True, next_frame (st\<lparr>printed := printed st @ [frame_idx st]\<rparr>))
         | Decoded c e k \<Rightarrow>
             (True, next_frame (analyze_frame total_to_analyze callback c e k st)))
      else (True, next_frame st))"

lemma loop_body_frame_idx:
  "loop_body frames start_frame_int rate total_to_analyze callback st = (True, st')
     \<Longrightarrow> frame_idx st' = frame_idx st + 1"
  by (auto simp: loop_body_def next_frame_def analyze_frame_def Let_def
           split: if_splits frame.splits option.splits)

function walk ::
  "frame list \<Rightarrow> int \<Rightarrow> int \<Rightarrow> int \<Rightarrow> int \<Rightarrow> progress_callback option \<Rightarrow> walk_state
     \<Rightarrow> walk_state" where
  "walk frames start_frame_int actual_end_frame rate total_to_analyze callback st =
     (if actual_end_frame \<le> frame_idx st then st
      else case loop_body frames start_frame_int rate total_to_analyze callback st of
             (False, st') \<Rightarrow> st'
           | (True, st') \<Rightarrow>
               walk frames start_frame_int actual_end_frame rate total_to_analyze callback st')"
  by pat_completeness auto
termination
  by (relation "measure (\<lambda>(frames, start_frame_int, actual_end_frame, rate, total, callback, st).
                           nat (actual_end_frame - frame_idx st))")
     (auto dest!: loop_body_frame_idx [OF sym])

declare walk.simps [simp del]

text \<open>
  The function itself, on the capture that \<^verbatim>\<open>cv2.VideoCapture(str(self.video_path))\<close>
  yields. The outer \<^verbatim>\<open>try\<close> catches the \<^verbatim>\<open>ZeroDivisionError\<close> that the computation of
  \<^verbatim>\<open>total_to_analyze\<close> raises for \<^verbatim>\<open>sample_rate = 0\<close>. An empty dict \<^verbatim>\<open>{}\<close> in the
  third component is \<open>None\<close>. The parameters \<^verbatim>\<open>sample_rate\<close> and
  \<^verbatim>\<open>progress_callback\<close> of the source are written \<open>rate\<close> and \<open>callback\<close>:
  \<open>sample_rate\<close> is also a key of the statistics.
\<close>

definition actual_end :: "video_capture \<Rightarrow> int option \<Rightarrow> int" where
  "actual_end cap end_frame =
     (case end_frame of
        Some end_frame_int \<Rightarrow> min end_frame_int (cap_frame_count cap)
      | None \<Rightarrow> cap_frame_count cap)"

definition estimated_total :: "video_capture \<Rightarrow> int \<Rightarrow> int \<Rightarrow> int option \<Rightarrow> int" where
  "estimated_total cap rate start_frame end_frame =
     (actual_end cap end_frame - start_frame + rate - 1) div rate"

definition initial_state :: "video_capture \<Rightarrow> int \<Rightarrow> int \<Rightarrow> int option \<Rightarrow> walk_state" where
  "initial_state cap rate start_frame end_frame =
     \<lparr> w_stats = \<lparr> clarity = [], exposure = [], contrast = [],
                   num_images = 0, blurry = 0, under_exposed = 0, over_exposed = 0,
                   low_contrast = 0,
                   total_frames = cap_frame_count cap,
                   fps = cap_fps cap,
                   sample_rate = rate,
                   frames_analyzed = estimated_total cap rate start_frame end_frame \<rparr>,
       frame_idx = (if 0 < start_frame then start_frame else 0),
       analyzed_count = 0,
       visited = [], progress_calls = [], printed = [] \<rparr>"

definition frame_walk ::
  "video_capture \<Rightarrow> int \<Rightarrow> int \<Rightarrow> int option \<Rightarrow> progress_callback option \<Rightarrow> walk_state" where
  "frame_walk cap rate start_frame end_frame callback =
     walk (cap_frames cap) start_frame (actual_end cap end_frame) rate
       (estimated_total cap rate start_frame end_frame) callback
       (initial_state cap rate start_frame end_frame)"

definition analysis_message :: "video_capture \<Rightarrow> int \<Rightarrow> int \<Rightarrow> int option \<Rightarrow> int \<Rightarrow> string" where
  "analysis_message cap rate start_frame end_frame count =
     ''Quality analysis completed.'' @ nl @ nl
     @ ''Analyzed '' @ str_int count @ ''/'' @ str_int (actual_end cap end_frame - start_frame)
     @ '' frames (range: '' @ str_int start_frame @ ''-'' @ str_int (actual_end cap end_frame)
     @ '', sampling every '' @ str_int rate @ '' frames)''"

definition analyze_video_quality ::
  "video_capture \<Rightarrow> int \<Rightarrow> int \<Rightarrow> int option \<Rightarrow> progress_callback option
     \<Rightarrow> bool \<times> string \<times> analysis_stats option" where
  "analyze_video_quality cap rate start_frame end_frame callback =
     (if \<not> cap_isOpened cap then (False, ''Unable to open video file.'', None)
      else if rate = 0
      then (False, ''Error occurred during analysis:'' @ nl @ nl
                     @ ''integer division or modulo by zero'', None)
      else
        let st = frame_walk cap rate start_frame end_frame callback in
        if analyzed_count st = 0 then (False, ''No frames were analyzed.'', None)
        else (True, analysis_message cap rate start_frame end_frame (analyzed_count st),
              Some (w_stats st)))"

section \<open>The pipeline: run and validate\_video\_file\<close>

text \<open>The dataclass returned by \<^verbatim>\<open>run\<close>; the empty dict \<^verbatim>\<open>{}\<close> is the empty list.\<close>

record ValidationPipelineOutput =
  passed :: bool
  status :: string
  analyze_success :: bool
  validate_success :: bool
  message :: string
  analyze_message :: string
  validate_message :: string
  issues :: "string list"
  details :: "(string \<times> string list) list"
  stats :: "(string \<times> rat) list"
  summary :: string
  video_path :: string
  created_at :: string

text \<open>
  The integer entries of the statistics dict, which is what \<^verbatim>\<open>validate_quality\<close> reads
  of it; \<open>None\<close> is \<^verbatim>\<open>{}\<close>.
\<close>

definition stats_dict :: "analysis_stats option \<Rightarrow> (string \<rightharpoonup> int)" where
  "stats_dict so =
     (case so of
        None \<Rightarrow> Map.empty
      | Some s \<Rightarrow>
          [''num_images'' \<mapsto> num_images s, ''blurry'' \<mapsto> blurry s,
           ''under_exposed'' \<mapsto> under_exposed s, ''over_exposed'' \<mapsto> over_exposed s,
           ''low_contrast'' \<mapsto> low_contrast s, ''total_frames'' \<mapsto> total_frames s,
           ''sample_rate'' \<mapsto> sample_rate s, ''frames_analyzed'' \<mapsto> frames_analyzed s])"

text \<open>
  The body of \<^verbatim>\<open>run\<close> after its two calls: \<open>analysis\<close> is the triple returned by
  \<^verbatim>\<open>analyze_video_quality\<close> and \<open>validation\<close> the triple returned by
  \<^verbatim>\<open>validate_quality\<close>, which is read only when the analysis succeeded. Two things
  come from outside: \<open>now\<close> is the timestamp taken at the start of \<^verbatim>\<open>run\<close>, and
  \<open>quality_summary\<close> stands for \<^verbatim>\<open>get_quality_summary\<close> (numpy statistics, not
  modelled), with \<open>None\<close> for a call that raises. The attribute \<^verbatim>\<open>video_path\<close> is
  written \<open>path\<close>, since it is also a field of the output.
\<close>

definition pipeline_output ::
  "string \<Rightarrow> string
     \<Rightarrow> (analysis_stats option \<Rightarrow> validation_result option \<Rightarrow> string option) \<Rightarrow> bool
     \<Rightarrow> bool \<times> string \<times> analysis_stats option
     \<Rightarrow> bool \<times> string \<times> validation_result option
     \<Rightarrow> ValidationPipelineOutput" where
  "pipeline_output path now quality_summary include_summary analysis validation =
     (case analysis of
        (analyze_ok, analyze_msg, analysis_stats) \<Rightarrow>
          if \<not> analyze_ok then
            \<lparr> passed = False, status = ''bad'', analyze_success = False,
              validate_success = False, message = analyze_msg, analyze_message = analyze_msg,
              validate_message = '''', issues = [], details = [], stats = [], summary = '''',
              video_path = path, created_at = now \<rparr>
          else
            (case validation of
               (validate_ok, validate_msg, validation_result) \<Rightarrow>
                 if \<not> validate_ok then
                   \<lparr> passed = False, status = ''bad'', analyze_success = True,
                     validate_success = False,
                     message = analyze_msg @ nl @ nl @ validate_msg,
                     analyze_message = analyze_msg, validate_message = validate_msg,
                     issues = [], details = [], stats = [], summary = '''',
                     video_path = path, created_at = now \<rparr>
                 else
                   \<lparr> passed = (case validation_result of None \<Rightarrow> False
                               | Some r \<Rightarrow> res_passed r),
                     status = (if (case validation_result of None \<Rightarrow> False
                                   | Some r \<Rightarrow> res_passed r)
                               then ''good'' else ''bad''),
                     analyze_success = True, validate_success = True,
                     message = analyze_msg @ nl @ nl @ validate_msg,
                     analyze_message = analyze_msg, validate_message = validate_msg,
                     issues = (case validation_result of None \<Rightarrow> [] | Some r \<Rightarrow> res_issues r),
                     details = (case validation_result of None \<Rightarrow> []
                                | Some r \<Rightarrow> res_details r),
                     stats = (case validation_result of None \<Rightarrow> [] | Some r \<Rightarrow> res_stats r),
                     summary =
                       (if include_summary
                        then (case quality_summary analysis_stats validation_result of
                                None \<Rightarrow> '''' | Some text \<Rightarrow> text)
                        else ''''),
                     video_path = path, created_at = now \<rparr>))"

text \<open>\<^verbatim>\<open>run\<close> on the capture that OpenCV makes of the validator's file.\<close>

definition run ::
  "string \<Rightarrow> video_capture \<Rightarrow> string
     \<Rightarrow> (analysis_stats option \<Rightarrow> validation_result option \<Rightarrow> string option)
     \<Rightarrow> int \<Rightarrow> int \<Rightarrow> int option \<Rightarrow> bool \<Rightarrow> progress_callback option
     \<Rightarrow> ValidationPipelineOutput" where
  "run path cap now quality_summary rate start_frame end_frame include_summary callback =
     (let analysis = analyze_video_quality cap rate start_frame end_frame callback
      in pipeline_output path now quality_summary include_summary analysis
           (validate_quality (stats_dict (snd (snd analysis)))))"



section \<open>Example inputs\<close>







definition good_frame :: frame where
  "good_frame = Decoded 100 120 40"

definition clip10 :: video_capture where
  "clip10 = \<lparr> cap_isOpened = True, cap_frame_count = 10, cap_fps = 30,
              cap_frames = replicate 10 good_frame \<rparr>"

text \<open>
  A clip of four frames: a dark blurry flat one, one that does not convert, a bright one,
  and one whose \<^verbatim>\<open>retrieve\<close> fails. The clip of three frames has the failing
  \<^verbatim>\<open>retrieve\<close> in the middle.
\<close>

definition clip4 :: video_capture where
  "clip4 = \<lparr> cap_isOpened = True, cap_frame_count = 4, cap_fps = 25,
             cap_frames = [Decoded 10 30 20, ConvertFails, Decoded 50 220 30, RetrieveFails] \<rparr>"


text \<open>No summary, a callback that raises, two file systems.\<close>

definition no_summary :: "analysis_stats option \<Rightarrow> validation_result option \<Rightarrow> string option" where
  "no_summary analysis validation = None"





text \<open>
  Results as the analyzer and the validator return them: a file that cannot be opened,
  a completed analysis of one frame, and statistics without image data.
\<close>

definition unopened_result :: "bool \<times> string \<times> analysis_stats option" where
  "unopened_result = (False, ''Unable to open video file.'', None)"

definition completed_result :: "bool \<times> string \<times> analysis_stats option" where
  "completed_result =
     (True, ''Quality analysis completed.'',
      Some \<lparr> clarity = [100], exposure = [120], contrast = [40],
             num_images = 1, blurry = 0, under_exposed = 0, over_exposed = 0,
             low_contrast = 0, total_frames = 10, fps = 30, sample_rate = 30,
             frames_analyzed = 1 \<rparr>)"

definition no_data_result :: "bool \<times> string \<times> validation_result option" where
  "no_data_result = (False, ''No image data available for validation.'', None)"

section \<open>Observations on results\<close>



text \<open>
  The stride test of the loop, the metrics that a frame contributes when it is analyzed,
  and the metrics of the frames of a list of indices that pass the stride test.
\<close>

definition sampled :: "int \<Rightarrow> int \<Rightarrow> int \<Rightarrow> bool" where
  "sampled start_frame_int rate i = ((i - start_frame_int) mod rate = 0)"



text \<open>The counters of the statistics agree with the number of analyzed frames.\<close>

definition counters_consistent :: "walk_state \<Rightarrow> bool" where
  "counters_consistent st =
     (let s = w_stats st in
        0 \<le> analyzed_count st \<and> num_images s = analyzed_count st
      \<and> int (length (clarity s)) = num_images s
      \<and> int (length (exposure s)) = num_images s
      \<and> int (length (contrast s)) = num_images s
      \<and> 0 \<le> blurry s \<and> blurry s \<le> num_images s
      \<and> 0 \<le> under_exposed s \<and> 0 \<le> over_exposed s
      \<and> under_exposed s + over_exposed s \<le> num_images s
      \<and> 0 \<le> low_contrast s \<and> low_contrast s \<le> num_images s)"




section \<open>Properties of validate\_quality\<close>
































section \<open>Properties of the frame loop\<close>

text \<open>A property kept by every iteration holds when the loop ends.\<close>

lemma walk_invariant:
  assumes "I st"
    and "\<And>st b st'. I st \<Longrightarrow> \<not> actual_end_frame \<le> frame_idx st
            \<Longrightarrow> loop_body frames start_frame_int rate tot callback st = (b, st') \<Longrightarrow> I st'"
  shows "I (walk frames start_frame_int actual_end_frame rate tot callback st)"
  using assms
proof (induction frames start_frame_int actual_end_frame rate tot callback st rule: walk.induct)
  case (1 frames start_frame_int actual_end_frame rate tot callback st)
  show ?case
  proof (cases "actual_end_frame \<le> frame_idx st")
    case True
    then show ?thesis using "1.prems"(1) by (simp add: walk.simps)
  next
    case False
    obtain b st' where lb: "loop_body frames start_frame_int rate tot callback st = (b, st')"
      by (cases "loop_body frames start_frame_int rate tot callback st")
    have I': "I st'" using "1.prems"(2) [OF "1.prems"(1) False lb] .
    show ?thesis
    proof (cases b)
      case True
      then have bt: "b = True" by simp
      have "I (walk frames start_frame_int actual_end_frame rate tot callback st')"
        by (rule "1.IH" [OF False lb [symmetric] bt I']) (rule "1.prems"(2), assumption+)
      then show ?thesis
        using False lb True by (subst walk.simps) simp
    next
      case False
      then show ?thesis
        using \<open>\<not> actual_end_frame \<le> frame_idx st\<close> lb I' by (subst walk.simps) simp
    qed
  qed
qed

lemma w_stats_analyze_frame:
  "w_stats (analyze_frame tot callback c e k st)
     = (classify c e k (w_stats st))\<lparr>num_images := analyzed_count st + 1\<rparr>"
  "analyzed_count (analyze_frame tot callback c e k st) = analyzed_count st + 1"
  "frame_idx (analyze_frame tot callback c e k st) = frame_idx st"
  "visited (analyze_frame tot callback c e k st) = visited st"
  by (simp_all add: analyze_frame_def Let_def split: option.splits)

lemma loop_body_cases:
  assumes "loop_body frames start_frame_int rate tot callback st = (b, st')"
  obtains
    (stop) "\<not> b" "st' = st"
      "\<not> grab frames (frame_idx st)
       \<or> (sampled start_frame_int rate (frame_idx st) \<and> frames ! nat (frame_idx st) = RetrieveFails)"
  | (skip) "b" "grab frames (frame_idx st)" "\<not> sampled start_frame_int rate (frame_idx st)"
      "st' = next_frame st"
  | (fail) "b" "grab frames (frame_idx st)" "sampled start_frame_int rate (frame_idx st)"
      "frames ! nat (frame_idx st) = ConvertFails"
      "st' = next_frame (st\<lparr>printed := printed st @ [frame_idx st]\<rparr>)"
  | (analyze) c e k where "b" "grab frames (frame_idx st)"
      "sampled start_frame_int rate (frame_idx st)"
      "frames ! nat (frame_idx st) = Decoded c e k"
      "st' = next_frame (analyze_frame tot callback c e k st)"
  using assms
  by (auto simp: loop_body_def sampled_def split: if_splits frame.splits)

text \<open>
  C4. The \<^verbatim>\<open>try\<close> block of a frame that converts appends the three metrics and applies
  the three checks independently: clarity below 20 increments \<open>blurry\<close>; exposure below
  60 increments \<open>under_exposed\<close>, otherwise exposure above 200 increments
  \<open>over_exposed\<close>, so at most one of the two counters moves; contrast below 25
  increments \<open>low_contrast\<close>. The loop runs this block on every frame that is grabbed,
  passes the stride test and converts.
\<close>

theorem analyze_frame_classification:
  "(let s = w_stats st; s' = w_stats (analyze_frame tot callback c e k st)
    in blurry s' = blurry s + (if c < 20 then 1 else 0)
     \<and> under_exposed s' = under_exposed s + (if e < 60 then 1 else 0)
     \<and> over_exposed s' = over_exposed s + (if \<not> e < 60 \<and> 200 < e then 1 else 0)
     \<and> low_contrast s' = low_contrast s + (if k < 25 then 1 else 0)
     \<and> (under_exposed s' - under_exposed s) + (over_exposed s' - over_exposed s) \<le> 1
     \<and> clarity s' = clarity s @ [c] \<and> exposure s' = exposure s @ [e]
     \<and> contrast s' = contrast s @ [k])
   \<and> (grab frames (frame_idx st) \<and> (frame_idx st - start_frame_int) mod rate = 0
        \<and> frames ! nat (frame_idx st) = Decoded c e k
      \<longrightarrow> loop_body frames start_frame_int rate tot callback st
            = (True, next_frame (analyze_frame tot callback c e k st)))"
  by (simp add: w_stats_analyze_frame classify_def Let_def loop_body_def
                MIN_CLARITY_def MIN_EXPOSURE_def MAX_EXPOSURE_def MIN_CONTRAST_def)

theorem analyze_frame_classification_witness:
  "grab (cap_frames clip4) 0 \<and> (0 - 0) mod (1 :: int) = 0
   \<and> cap_frames clip4 ! nat 0 = Decoded 10 30 20
   \<and> fst (loop_body (cap_frames clip4) 0 1 4 None (initial_state clip4 1 0 None))
   \<and> blurry (w_stats (analyze_frame 4 None 10 30 20 (initial_state clip4 1 0 None))) = 1
   \<and> under_exposed (w_stats (analyze_frame 4 None 10 30 20 (initial_state clip4 1 0 None))) = 1
   \<and> over_exposed (w_stats (analyze_frame 4 None 10 30 20 (initial_state clip4 1 0 None))) = 0
   \<and> low_contrast (w_stats (analyze_frame 4 None 10 30 20 (initial_state clip4 1 0 None))) = 1"
proof -
  have at0: "frame_idx (initial_state clip4 1 0 None) = 0"
    and zero: "blurry (w_stats (initial_state clip4 1 0 None)) = 0"
      "under_exposed (w_stats (initial_state clip4 1 0 None)) = 0"
      "over_exposed (w_stats (initial_state clip4 1 0 None)) = 0"
      "low_contrast (w_stats (initial_state clip4 1 0 None)) = 0"
    by (simp_all add: initial_state_def)
  have frame0: "grab (cap_frames clip4) 0" "cap_frames clip4 ! nat 0 = Decoded 10 30 20"
    by (simp_all add: clip4_def grab_def)
  from analyze_frame_classification
         [of "initial_state clip4 1 0 None" 4 None 10 30 20 "cap_frames clip4" 0 1]
  show ?thesis
    using at0 zero frame0 by (simp add: Let_def)
qed

lemma counters_consistent_step:
  assumes "counters_consistent st"
    and "loop_body frames start_frame_int rate tot callback st = (b, st')"
  shows "counters_consistent st'"
  using assms(2)
proof (cases rule: loop_body_cases)
  case (analyze c e k)
  with assms(1) show ?thesis
    by (auto simp: counters_consistent_def Let_def next_frame_def w_stats_analyze_frame
                   classify_def)
qed (use assms(1) in \<open>auto simp: counters_consistent_def Let_def next_frame_def\<close>)

lemma counters_consistent_frame_walk:
  "counters_consistent (frame_walk cap rate start_frame end_frame callback)"
  unfolding frame_walk_def
proof (rule walk_invariant)
  show "counters_consistent (initial_state cap rate start_frame end_frame)"
    by (simp add: counters_consistent_def initial_state_def)
qed (rule counters_consistent_step)

lemma clip4_analysis:
  "analyze_video_quality clip4 1 0 None None =
     (True, analysis_message clip4 1 0 None 2,
      Some \<lparr> clarity = [10, 50], exposure = [30, 220], contrast = [20, 30],
             num_images = 2, blurry = 1, under_exposed = 1, over_exposed = 1,
             low_contrast = 1, total_frames = 4, fps = 25, sample_rate = 1,
             frames_analyzed = 4 \<rparr>)"
  by code_simp

text \<open>
  C8. When \<^verbatim>\<open>analyze_video_quality\<close> succeeds, each of the counters \<open>blurry\<close>,
  \<open>under_exposed\<close>, \<open>over_exposed\<close> and \<open>low_contrast\<close> of the returned statistics is
  at most \<open>num_images\<close>, and \<open>num_images\<close> is the length of each of the three metric
  sequences, also when sampled frames failed to convert and were skipped.
\<close>

theorem analyze_video_quality_counters:
  "fst (analyze_video_quality cap rate start_frame end_frame callback) \<longrightarrow>
     (\<exists>s. snd (snd (analyze_video_quality cap rate start_frame end_frame callback)) = Some s
        \<and> blurry s \<le> num_images s \<and> under_exposed s \<le> num_images s
        \<and> over_exposed s \<le> num_images s \<and> low_contrast s \<le> num_images s
        \<and> num_images s = int (length (clarity s))
        \<and> num_images s = int (length (exposure s))
        \<and> num_images s = int (length (contrast s)))"
  using counters_consistent_frame_walk [of cap rate start_frame end_frame callback]
  by (auto simp: analyze_video_quality_def counters_consistent_def Let_def split: if_splits)

theorem analyze_video_quality_counters_witness:
  "fst (analyze_video_quality clip4 1 0 None None)
   \<and> cap_frames clip4 ! 1 = ConvertFails
   \<and> (\<exists>s. snd (snd (analyze_video_quality clip4 1 0 None None)) = Some s
         \<and> num_images s = 2 \<and> blurry s \<le> num_images s \<and> length (clarity s) = 2)"
proof -
  have skipped: "cap_frames clip4 ! 1 = ConvertFails"
    by (simp add: clip4_def)
  have ok: "fst (analyze_video_quality clip4 1 0 None None)"
    by (simp add: clip4_analysis)
  with analyze_video_quality_counters [of clip4 1 0 None None]
  have "\<exists>s. snd (snd (analyze_video_quality clip4 1 0 None None)) = Some s
         \<and> num_images s = 2 \<and> blurry s \<le> num_images s \<and> length (clarity s) = 2"
    by (auto simp: clip4_analysis)
  with ok skipped show ?thesis
    by blast
qed

section \<open>The progress callback\<close>











section \<open>The frames gone through\<close>















section \<open>Failures of the analyzer and of the validator\<close>








section \<open>Properties of the pipeline\<close>



lemma pipeline_output_variants:
  "let out = pipeline_output path now quality_summary include_summary analysis validation
   in (status out = ''good'' \<longleftrightarrow> passed out)
    \<and> (\<not> fst analysis
         \<longrightarrow> \<not> analyze_success out \<and> \<not> validate_success out \<and> \<not> passed out
            \<and> status out = ''bad'' \<and> issues out = [] \<and> details out = [] \<and> stats out = []
            \<and> message out = fst (snd analysis))
    \<and> (fst analysis \<and> \<not> fst validation
         \<longrightarrow> analyze_success out \<and> \<not> validate_success out \<and> \<not> passed out
            \<and> status out = ''bad'' \<and> issues out = [] \<and> details out = [] \<and> stats out = []
            \<and> message out = fst (snd analysis) @ nl @ nl @ fst (snd validation))
    \<and> (fst analysis \<and> fst validation \<longrightarrow> analyze_success out \<and> validate_success out)"
  by (simp add: pipeline_output_def Let_def split: prod.splits option.splits)

text \<open>
  C1. On every output of \<^verbatim>\<open>run\<close> the status is \<open>good\<close> exactly when \<open>passed\<close> is
  true. The same holds for the record that the body of \<^verbatim>\<open>run\<close> builds from any pair
  of results of the analyzer and the validator, and on both terminal failures (the
  analysis failed; the analysis succeeded and the validation failed) \<open>passed\<close> is false
  and the status is \<open>bad\<close>.
\<close>

theorem run_status_iff_passed:
  "(let out = run path cap now quality_summary rate start_frame end_frame include_summary callback
    in status out = ''good'' \<longleftrightarrow> passed out)
   \<and> (let out = pipeline_output path now quality_summary include_summary analysis validation
      in (status out = ''good'' \<longleftrightarrow> passed out)
       \<and> (\<not> fst analysis
            \<longrightarrow> \<not> analyze_success out \<and> \<not> passed out \<and> status out = ''bad'')
       \<and> (fst analysis \<and> \<not> fst validation
            \<longrightarrow> analyze_success out \<and> \<not> validate_success out \<and> \<not> passed out
               \<and> status out = ''bad''))"
  using pipeline_output_variants
          [of path now quality_summary include_summary
              "analyze_video_quality cap rate start_frame end_frame callback"
              "validate_quality (stats_dict (snd (snd (analyze_video_quality cap rate start_frame
                                                         end_frame callback))))"]
        pipeline_output_variants [of path now quality_summary include_summary analysis validation]
  by (simp add: run_def Let_def)

theorem run_status_iff_passed_witness:
  "\<not> fst unopened_result
   \<and> \<not> passed (pipeline_output ''clip.mp4'' ''2024'' no_summary False unopened_result no_data_result)
   \<and> status (pipeline_output ''clip.mp4'' ''2024'' no_summary False unopened_result no_data_result)
       = ''bad''
   \<and> fst completed_result \<and> \<not> fst no_data_result
   \<and> \<not> validate_success
         (pipeline_output ''clip.mp4'' ''2024'' no_summary False completed_result no_data_result)
   \<and> \<not> passed (pipeline_output ''clip.mp4'' ''2024'' no_summary False completed_result no_data_result)
   \<and> status (pipeline_output ''clip.mp4'' ''2024'' no_summary False completed_result no_data_result)
       = ''bad''"
proof -
  have results: "\<not> fst unopened_result" "fst completed_result \<and> \<not> fst no_data_result"
    by (simp_all add: unopened_result_def completed_result_def no_data_result_def)
  from results(1)
       run_status_iff_passed
         [of "''clip.mp4''" clip10 "''2024''" no_summary 30 0 None False None
             unopened_result no_data_result, unfolded Let_def]
  have first_variant:
    "\<not> passed (pipeline_output ''clip.mp4'' ''2024'' no_summary False unopened_result no_data_result)
     \<and> status (pipeline_output ''clip.mp4'' ''2024'' no_summary False unopened_result no_data_result)
         = ''bad''"
    by blast
  from results(2)
       run_status_iff_passed
         [of "''clip.mp4''" clip10 "''2024''" no_summary 30 0 None False None
             completed_result no_data_result, unfolded Let_def]
  have second_variant:
    "\<not> validate_success
         (pipeline_output ''clip.mp4'' ''2024'' no_summary False completed_result no_data_result)
     \<and> \<not> passed (pipeline_output ''clip.mp4'' ''2024'' no_summary False completed_result no_data_result)
     \<and> status (pipeline_output ''clip.mp4'' ''2024'' no_summary False completed_result no_data_result)
         = ''bad''"
    by blast
  from results first_variant second_variant show ?thesis
    by blast
qed




end
